theory Spec2Isabelle
  imports Main
begin

section \<open>The custom inference runtime of docs/examples/custom (models.py)\<close>

text \<open>
  The notebook writes \<^verbatim>\<open>models.py\<close>, whose class \<^verbatim>\<open>NumpyroModel(MLModel)\<close> has the methods
  \<^verbatim>\<open>load\<close>, \<^verbatim>\<open>predict\<close>, \<^verbatim>\<open>_extract_inputs\<close> and \<^verbatim>\<open>_model\<close>. They are embedded here as
  functions over an explicit instance state. Isabelle names cannot begin with an
  underscore, so \<^verbatim>\<open>_extract_inputs\<close>, \<^verbatim>\<open>_model\<close>, \<^verbatim>\<open>_samples\<close>, \<^verbatim>\<open>_predictive\<close> and
  \<^verbatim>\<open>_settings\<close> lose theirs.

  Floating point numbers are an abstract type \<open>'x\<close>: nothing below depends on their
  arithmetic. What numpy, jax, numpyro, json and the file system compute is taken as a
  parameter (the records \<open>numerics\<close> and \<open>system\<close>), each call returning a value or an
  exception.
\<close>

subsection \<open>Python values, exceptions, dictionaries\<close>

datatype 'x pyval =
    PNone
  | PBool bool
  | PNum 'x
  | PStr string
  | PList "'x pyval list"
  | PDict "(string \<times> 'x pyval) list"

text \<open>
  The exceptions the embedded code can end with: the three that Python raises itself
  (a missing attribute, a missing key, an unexpected keyword argument), and
  \<open>LibraryError\<close> for whatever a call into a library or the operating system raises.
  \<open>ModelNotReadyError\<close> is the request handler's, which only the specification
  describes.
\<close>

datatype exn =
    AttributeError string
  | KeyError string
  | TypeError string
  | LibraryError string
  | ModelNotReadyError string

text \<open>
  A Python \<^verbatim>\<open>dict\<close> with string keys, in insertion order. \<^verbatim>\<open>d[k] = v\<close> replaces the value
  of a key already present, where it stands, and appends a new key.
\<close>

type_synonym 'v pydict = "(string \<times> 'v) list"

fun dict_set :: "'v pydict \<Rightarrow> string \<Rightarrow> 'v \<Rightarrow> 'v pydict" where
  "dict_set [] k v = [(k, v)]"
| "dict_set ((k', v') # d) k v = (if k' = k then (k, v) # d else (k', v') # dict_set d k v)"

fun dict_get :: "'v pydict \<Rightarrow> string \<Rightarrow> 'v option" where
  "dict_get [] k = None"
| "dict_get ((k', v') # d) k = (if k' = k then Some v' else dict_get d k)"

definition dict_keys :: "'v pydict \<Rightarrow> string list" where
  "dict_keys d = map fst d"

subsection \<open>Arrays\<close>

text \<open>
  A numpy or jax array: its shape and its elements in row-major order. A Python float
  is the array of shape \<open>[]\<close> with one element.
\<close>

record 'x ndarray =
  nd_shape :: "nat list"
  nd_elems :: "'x list"

definition scalar :: "'x \<Rightarrow> 'x ndarray" where
  "scalar x = \<lparr>nd_shape = [], nd_elems = [x]\<rparr>"

text \<open>
  \<^verbatim>\<open>ndarray.tolist()\<close>: the elements as nested lists, one level per axis. An array with
  no axis gives no list at all but the bare scalar (numpy's documentation of
  \<^verbatim>\<open>tolist\<close>: "if a.ndim is 0, then since the depth of the nested list is 0, it will
  not be a list at all, but a simple Python scalar").
\<close>

fun nest :: "nat list \<Rightarrow> 'x list \<Rightarrow> 'x pyval" where
  "nest [] xs = (case xs of [] \<Rightarrow> PNone | x # _ \<Rightarrow> PNum x)"
| "nest (d # ds) xs =
     PList (map (\<lambda>i. nest ds (take (prod_list ds) (drop (i * prod_list ds) xs))) [0..<d])"

definition tolist :: "'x ndarray \<Rightarrow> 'x pyval" where
  "tolist a = nest (nd_shape a) (nd_elems a)"

text \<open>\<^verbatim>\<open>np.asarray\<close> of a jax array: the same shape and elements as a numpy array.\<close>

definition np_asarray :: "'x ndarray \<Rightarrow> 'x ndarray" where
  "np_asarray a = a"

subsection \<open>The library operations taken as parameters\<close>

text \<open>
  \<open>np_array\<close> is \<^verbatim>\<open>np.array\<close> on a decoded JSON value; \<open>lit\<close> reads a float literal of the
  source text; \<open>mul\<close> and \<open>add\<close> are the broadcasting \<^verbatim>\<open>*\<close> and \<^verbatim>\<open>+\<close>; \<open>mean_of\<close> is the
  floating point mean of all elements.
\<close>

record 'x numerics =
  np_array :: "'x pyval \<Rightarrow> exn + 'x ndarray"
  lit :: "string \<Rightarrow> 'x"
  mul :: "'x ndarray \<Rightarrow> 'x ndarray \<Rightarrow> exn + 'x ndarray"
  add :: "'x ndarray \<Rightarrow> 'x ndarray \<Rightarrow> exn + 'x ndarray"
  mean_of :: "'x list \<Rightarrow> 'x"

text \<open>\<^verbatim>\<open>a.mean()\<close> with no axis: an array of shape \<open>()\<close> holding the mean of all elements.\<close>

definition mean :: "'x numerics \<Rightarrow> 'x ndarray \<Rightarrow> 'x ndarray" where
  "mean nx a = \<lparr>nd_shape = [], nd_elems = [mean_of nx (nd_elems a)]\<rparr>"

datatype 'x dist =
    Normal "'x ndarray" "'x ndarray"
  | Exponential "'x ndarray"

datatype rng_key = PRNGKey int

text \<open>
  \<^verbatim>\<open>numpyro.sample(name, dist, obs=None)\<close> is an effect that the handlers installed by
  the caller interpret; \<open>'h\<close> is the state of those handlers. The model is run by
  whoever supplies the \<open>sample\<close> function.
\<close>

type_synonym ('x, 'h) sample_fn =
  "string \<Rightarrow> 'x dist \<Rightarrow> 'x ndarray option \<Rightarrow> 'h \<Rightarrow> exn + ('x ndarray \<times> 'h)"

type_synonym ('x, 'h) model_fn =
  "('x, 'h) sample_fn \<Rightarrow> 'x ndarray pydict \<Rightarrow> 'h \<Rightarrow> exn + 'h"

subsection \<open>The protocol types and the instance\<close>

text \<open>
  Modelled from the spec: the types of \<^verbatim>\<open>mlserver.types\<close>, which the notebook imports
  and does not define. Their fields are those of section 3 of the specification, which
  are the ones the code reads and writes. One record serves as RequestInput and as
  ResponseOutput (the specification's TensorPayload). The field \<^verbatim>\<open>datatype\<close> is \<open>dtype\<close>
  and the two \<^verbatim>\<open>id\<close> fields are \<open>request_id\<close> and \<open>response_id\<close>, since \<open>datatype\<close> is a
  keyword and \<open>id\<close> the identity function. \<open>data\<close> is any decoded JSON value: the code
  passes it to \<^verbatim>\<open>np.array\<close> and fills it with the result of \<^verbatim>\<open>tolist\<close>.
\<close>

record 'x TensorPayload =
  name :: string
  shape :: "nat list"
  dtype :: string
  parameters :: "'x pyval pydict option"
  data :: "'x pyval"

record 'x InferenceRequest =
  request_id :: "string option"
  inputs :: "'x TensorPayload list"
  request_parameters :: "'x pyval pydict option"

record 'x InferenceResponse =
  response_id :: "string option"
  model_name :: string
  model_version :: "string option"
  outputs :: "'x TensorPayload list"

record ModelSettings =
  settings_name :: string
  implementation :: string
  uri :: "string option"
  settings_version :: "string option"

text \<open>
  The instance. \<open>samples\<close> and \<open>predictive\<close> are the two attributes that \<^verbatim>\<open>load\<close> creates;
  \<open>None\<close> is an attribute not yet set, and \<open>'p\<close> is numpyro's \<^verbatim>\<open>Predictive\<close> object.
  Modelled from the spec: the state that the base class \<^verbatim>\<open>MLModel\<close> keeps, which the
  notebook inherits and does not define. By section 3 a RuntimeInstance is bound to one
  ModelSettings and has the attributes \<open>name\<close>, \<open>version\<close> and \<open>ready\<close>.
\<close>

record ('x, 'p) RuntimeInstance =
  settings :: ModelSettings
  ready :: bool
  samples :: "'x ndarray pydict option"
  predictive :: "'p option"

text \<open>
  Modelled from the spec: \<^verbatim>\<open>self.name\<close> and \<^verbatim>\<open>self.version\<close> of \<^verbatim>\<open>MLModel\<close>, the name and the
  optional version of the settings that the instance is bound to.
\<close>

definition self_name :: "('x, 'p) RuntimeInstance \<Rightarrow> string" where
  "self_name self = settings_name (settings self)"

definition self_version :: "('x, 'p) RuntimeInstance \<Rightarrow> string option" where
  "self_version self = settings_version (settings self)"

text \<open>
  What the rest of the world computes for \<^verbatim>\<open>load\<close> and \<^verbatim>\<open>predict\<close>:
  \<^verbatim>\<open>mlserver.utils.get_model_uri\<close>, \<^verbatim>\<open>open\<close> with \<^verbatim>\<open>json.load\<close>, the constructor
  \<^verbatim>\<open>Predictive(model, posterior_samples)\<close> and the call
  \<^verbatim>\<open>predictive(rng_key=key, **kwargs)\<close>, which returns the sampled sites by name.
\<close>

record ('x, 'h, 'p) system =
  get_model_uri :: "ModelSettings \<Rightarrow> exn + string"
  read_file :: "string \<Rightarrow> exn + string"
  json_load :: "string \<Rightarrow> exn + 'x pyval"
  Predictive :: "('x, 'h) model_fn \<Rightarrow> 'x ndarray pydict \<Rightarrow> exn + 'p"
  call_predictive :: "'p \<Rightarrow> rng_key \<Rightarrow> 'x ndarray pydict \<Rightarrow> exn + 'x ndarray pydict"

subsection \<open>\<^verbatim>\<open>_model\<close>\<close>

text \<open>
  \<^verbatim>\<open>
  def _model(self, marriage=None, age=None, divorce=None):
      a = numpyro.sample("a", dist.Normal(0.0, 0.2))
      M, A = 0.0, 0.0
      if marriage is not None:
          bM = numpyro.sample("bM", dist.Normal(0.0, 0.5))
          M = bM * marriage
      if age is not None:
          bA = numpyro.sample("bA", dist.Normal(0.0, 0.5))
          A = bA * age
      sigma = numpyro.sample("sigma", dist.Exponential(1.0))
      mu = a + M + A
      numpyro.sample("obs", dist.Normal(mu, sigma), obs=divorce)
  \<close>
  An argument that was not passed is \<open>None\<close>.
\<close>

definition bindE :: "exn + 'a \<Rightarrow> ('a \<Rightarrow> exn + 'b) \<Rightarrow> exn + 'b" where
  "bindE m f = (case m of Inl e \<Rightarrow> Inl e | Inr x \<Rightarrow> f x)"

definition flt :: "'x numerics \<Rightarrow> string \<Rightarrow> 'x ndarray" where
  "flt nx s = scalar (lit nx s)"

definition model ::
  "'x numerics \<Rightarrow> ('x, 'h) sample_fn \<Rightarrow>
   'x ndarray option \<Rightarrow> 'x ndarray option \<Rightarrow> 'x ndarray option \<Rightarrow> 'h \<Rightarrow> exn + 'h" where
  "model nx sample marriage age divorce h0 =
     bindE (sample ''a'' (Normal (flt nx ''0.0'') (flt nx ''0.2'')) None h0) (\<lambda>(a, h1).
     bindE (case marriage of
              None \<Rightarrow> Inr (flt nx ''0.0'', h1)
            | Some m \<Rightarrow>
                bindE (sample ''bM'' (Normal (flt nx ''0.0'') (flt nx ''0.5'')) None h1) (\<lambda>(bM, h).
                bindE (mul nx bM m) (\<lambda>M. Inr (M, h)))) (\<lambda>(M, h2).
     bindE (case age of
              None \<Rightarrow> Inr (flt nx ''0.0'', h2)
            | Some g \<Rightarrow>
                bindE (sample ''bA'' (Normal (flt nx ''0.0'') (flt nx ''0.5'')) None h2) (\<lambda>(bA, h).
                bindE (mul nx bA g) (\<lambda>A. Inr (A, h)))) (\<lambda>(A, h3).
     bindE (sample ''sigma'' (Exponential (flt nx ''1.0'')) None h3) (\<lambda>(sigma, h4).
     bindE (add nx a M) (\<lambda>aM.
     bindE (add nx aM A) (\<lambda>mu.
     bindE (sample ''obs'' (Normal mu sigma) divorce h4) (\<lambda>(obs, h5).
     Inr h5)))))))"

text \<open>
  Calling \<^verbatim>\<open>_model(**kwargs)\<close>: a keyword that is not a parameter of the method is a
  TypeError, the others are bound and the rest default to \<open>None\<close>.
\<close>

definition model_kwargs :: "'x numerics \<Rightarrow> ('x, 'h) model_fn" where
  "model_kwargs nx sample kwargs h =
     (case filter (\<lambda>k. k \<notin> {''marriage'', ''age'', ''divorce''}) (dict_keys kwargs) of
        k # _ \<Rightarrow> Inl (TypeError k)
      | [] \<Rightarrow>
          model nx sample (dict_get kwargs ''marriage'') (dict_get kwargs ''age'')
            (dict_get kwargs ''divorce'') h)"

subsection \<open>\<^verbatim>\<open>_extract_inputs\<close>\<close>

text \<open>
  \<^verbatim>\<open>
  def _extract_inputs(self, payload):
      inputs = {}
      for inp in payload.inputs:
          inputs[inp.name] = np.array(inp.data)
      return inputs
  \<close>
\<close>

fun extract_inputs_loop ::
  "'x numerics \<Rightarrow> 'x TensorPayload list \<Rightarrow> 'x ndarray pydict \<Rightarrow> exn + 'x ndarray pydict" where
  "extract_inputs_loop nx [] acc = Inr acc"
| "extract_inputs_loop nx (inp # rest) acc =
     (case np_array nx (data inp) of
        Inl e \<Rightarrow> Inl e
      | Inr arr \<Rightarrow> extract_inputs_loop nx rest (dict_set acc (name inp) arr))"

definition extract_inputs :: "'x numerics \<Rightarrow> 'x InferenceRequest \<Rightarrow> exn + 'x ndarray pydict" where
  "extract_inputs nx payload = extract_inputs_loop nx (inputs payload) []"

subsection \<open>\<^verbatim>\<open>predict\<close>\<close>

text \<open>
  \<^verbatim>\<open>
  async def predict(self, payload):
      inputs = self._extract_inputs(payload)
      predictions = self._predictive(rng_key=random.PRNGKey(0), **inputs)
      obs = predictions["obs"]
      obs_mean = obs.mean()
      return types.InferenceResponse(
          id=payload.id, model_name=self.name, model_version=self.version,
          outputs=[types.ResponseOutput(name="obs_mean", shape=obs_mean.shape,
                                        datatype="FP32",
                                        data=np.asarray(obs_mean).tolist())])
  \<close>
  The method assigns to no attribute; it returns the instance as it found it, with the
  response or the exception.
\<close>

definition predict ::
  "('x, 'h, 'p) system \<Rightarrow> 'x numerics \<Rightarrow> ('x, 'p) RuntimeInstance \<Rightarrow> 'x InferenceRequest \<Rightarrow>
   ('x, 'p) RuntimeInstance \<times> (exn + 'x InferenceResponse)" where
  "predict sys nx self payload =
     (self,
      bindE (extract_inputs nx payload) (\<lambda>inputs.
      bindE (case predictive self of
               None \<Rightarrow> Inl (AttributeError ''_predictive'')
             | Some p \<Rightarrow> call_predictive sys p (PRNGKey 0) inputs) (\<lambda>predictions.
      bindE (case dict_get predictions ''obs'' of
               None \<Rightarrow> Inl (KeyError ''obs'')
             | Some obs \<Rightarrow> Inr obs) (\<lambda>obs.
      let obs_mean = mean nx obs in
      Inr \<lparr>response_id = request_id payload,
           model_name = self_name self,
           model_version = self_version self,
           outputs =
             [\<lparr>name = ''obs_mean'',
               shape = nd_shape obs_mean,
               dtype = ''FP32'',
               parameters = None,
               data = tolist (np_asarray obs_mean)\<rparr>]\<rparr>))))"

subsection \<open>\<^verbatim>\<open>load\<close>\<close>

text \<open>
  \<^verbatim>\<open>
  async def load(self) -> bool:
      model_uri = await get_model_uri(self._settings)
      with open(model_uri) as model_file:
          raw_samples = json.load(model_file)
      self._samples = {}
      for k, v in raw_samples.items():
          self._samples[k] = np.array(v)
      self._predictive = Predictive(self._model, self._samples)
      self.ready = True
      return self.ready
  \<close>
  An exception leaves the instance with the assignments made before it. The loop over
  \<^verbatim>\<open>raw_samples.items()\<close> returns the dictionary it has filled so far and the exception
  that stopped it, if one did.
\<close>

fun load_loop ::
  "'x numerics \<Rightarrow> 'x pyval pydict \<Rightarrow> 'x ndarray pydict \<Rightarrow> 'x ndarray pydict \<times> exn option" where
  "load_loop nx [] acc = (acc, None)"
| "load_loop nx ((k, v) # rest) acc =
     (case np_array nx v of
        Inl e \<Rightarrow> (acc, Some e)
      | Inr arr \<Rightarrow> load_loop nx rest (dict_set acc k arr))"

definition load ::
  "('x, 'h, 'p) system \<Rightarrow> 'x numerics \<Rightarrow> ('x, 'p) RuntimeInstance \<Rightarrow>
   ('x, 'p) RuntimeInstance \<times> (exn + bool)" where
  "load sys nx self =
     (case get_model_uri sys (settings self) of
        Inl e \<Rightarrow> (self, Inl e)
      | Inr model_uri \<Rightarrow>
     (case read_file sys model_uri of
        Inl e \<Rightarrow> (self, Inl e)
      | Inr model_file \<Rightarrow>
     (case json_load sys model_file of
        Inl e \<Rightarrow> (self, Inl e)
      | Inr raw_samples \<Rightarrow>
     (let self1 = self\<lparr>samples := Some []\<rparr> in
      case raw_samples of
        PDict items \<Rightarrow>
          (case load_loop nx items [] of
             (filled, Some e) \<Rightarrow> (self1\<lparr>samples := Some filled\<rparr>, Inl e)
           | (filled, None) \<Rightarrow>
               (let self2 = self1\<lparr>samples := Some filled\<rparr> in
                case Predictive sys (model_kwargs nx) filled of
                  Inl e \<Rightarrow> (self2, Inl e)
                | Inr p \<Rightarrow>
                    (let self3 = self2\<lparr>predictive := Some p\<rparr>;
                         self4 = self3\<lparr>ready := True\<rparr>
                     in (self4, Inr (ready self4)))))
      | _ \<Rightarrow> (self1, Inl (AttributeError ''items''))))))"

text \<open>
  Modelled from the spec: \<^verbatim>\<open>MLModel.__init__\<close>, which is not part of the notebook. The
  specification's RuntimeInstance is bound to its settings and has \<open>ready\<close> "false until
  load succeeds"; the attributes that \<^verbatim>\<open>load\<close> creates do not exist yet.
\<close>

definition new_instance :: "ModelSettings \<Rightarrow> ('x, 'p) RuntimeInstance" where
  "new_instance ms = \<lparr>settings = ms, ready = False, samples = None, predictive = None\<rparr>"

subsection \<open>Several calls on one instance\<close>

text \<open>
  The calls of \<^verbatim>\<open>predict\<close> that one instance serves, one after the other: each call
  starts from the instance the call before it left.
\<close>

fun predict_many ::
  "('x, 'h, 'p) system \<Rightarrow> 'x numerics \<Rightarrow> ('x, 'p) RuntimeInstance \<Rightarrow> 'x InferenceRequest list \<Rightarrow>
   ('x, 'p) RuntimeInstance \<times> (exn + 'x InferenceResponse) list" where
  "predict_many sys nx self [] = (self, [])"
| "predict_many sys nx self (payload # rest) =
     (case predict sys nx self payload of
        (self', res) \<Rightarrow>
          (case predict_many sys nx self' rest of
             (self'', ress) \<Rightarrow> (self'', res # ress)))"

subsection \<open>An executable instance of the library parameters\<close>

text \<open>
  A small stand-in for the libraries, on which the definitions above can be run: numbers
  are integers counting tenths, arrays have at most one axis, a scalar broadcasts
  against an array, and the sampler draws the location of a distribution. The
  posterior holds one draw per site. The file system holds the file that
  \<^verbatim>\<open>model-settings.json\<close> names and a second one whose entry \<open>bM\<close> is not numeric.
\<close>

fun toy_nums :: "int pyval list \<Rightarrow> int list option" where
  "toy_nums [] = Some []"
| "toy_nums (PNum x # vs) = map_option ((#) x) (toy_nums vs)"
| "toy_nums (_ # vs) = None"

definition toy_np_array :: "int pyval \<Rightarrow> exn + int ndarray" where
  "toy_np_array v =
     (case v of
        PNum x \<Rightarrow> Inr (scalar x)
      | PList vs \<Rightarrow>
          (case toy_nums vs of
             Some xs \<Rightarrow> Inr \<lparr>nd_shape = [length xs], nd_elems = xs\<rparr>
           | None \<Rightarrow> Inl (LibraryError ''ValueError''))
      | _ \<Rightarrow> Inl (LibraryError ''ValueError''))"

definition toy_lit :: "string \<Rightarrow> int" where
  "toy_lit s =
     (if s = ''0.2'' then 2 else if s = ''0.5'' then 5 else if s = ''1.0'' then 10 else 0)"

definition toy_broadcast ::
  "(int \<Rightarrow> int \<Rightarrow> int) \<Rightarrow> int ndarray \<Rightarrow> int ndarray \<Rightarrow> exn + int ndarray" where
  "toy_broadcast f a b =
     (if nd_shape a = nd_shape b then
        Inr \<lparr>nd_shape = nd_shape a, nd_elems = map2 f (nd_elems a) (nd_elems b)\<rparr>
      else if nd_shape a = [] then
        Inr \<lparr>nd_shape = nd_shape b,
             nd_elems = concat (map (\<lambda>x. map (f x) (nd_elems b)) (nd_elems a))\<rparr>
      else if nd_shape b = [] then
        Inr \<lparr>nd_shape = nd_shape a,
             nd_elems = concat (map (\<lambda>y. map (\<lambda>x. f x y) (nd_elems a)) (nd_elems b))\<rparr>
      else Inl (LibraryError ''ValueError''))"

definition toy_mean_of :: "int list \<Rightarrow> int" where
  "toy_mean_of xs = (if xs = [] then 0 else sum_list xs div int (length xs))"

definition toy_numerics :: "int numerics" where
  "toy_numerics =
     \<lparr>np_array = toy_np_array,
      lit = toy_lit,
      mul = toy_broadcast (\<lambda>x y. x * y div 10),
      add = toy_broadcast (+),
      mean_of = toy_mean_of\<rparr>"

type_synonym toy_trace = "int ndarray pydict"

definition toy_sample :: "int ndarray pydict \<Rightarrow> (int, toy_trace) sample_fn" where
  "toy_sample posterior site d obs h =
     (let v = (case dict_get posterior site of
                 Some s \<Rightarrow> s
               | None \<Rightarrow>
                   (case obs of
                      Some ob \<Rightarrow> ob
                    | None \<Rightarrow> (case d of Normal loc sc \<Rightarrow> loc | Exponential rate \<Rightarrow> rate)))
      in Inr (v, dict_set h site v))"

type_synonym toy_predictive = "(int, toy_trace) model_fn \<times> int ndarray pydict"

definition toy_call_predictive ::
  "toy_predictive \<Rightarrow> rng_key \<Rightarrow> int ndarray pydict \<Rightarrow> exn + int ndarray pydict" where
  "toy_call_predictive p key kwargs =
     (case fst p (toy_sample (snd p)) kwargs [] of
        Inl e \<Rightarrow> Inl e
      | Inr tr \<Rightarrow> Inr (filter (\<lambda>kv. dict_get (snd p) (fst kv) = None) tr))"

definition toy_read_file :: "string \<Rightarrow> exn + string" where
  "toy_read_file path =
     (if path = ''./numpyro-divorce.json'' then Inr ''a=[1], bM=[3], sigma=[10]''
      else if path = ''./broken.json'' then Inr ''a=[1], bM=x, sigma=[10]''
      else Inl (LibraryError ''FileNotFoundError''))"

definition toy_json_load :: "string \<Rightarrow> exn + int pyval" where
  "toy_json_load text =
     (if text = ''a=[1], bM=[3], sigma=[10]'' then
        Inr (PDict [(''a'', PList [PNum 1]), (''bM'', PList [PNum 3]),
                    (''sigma'', PList [PNum 10])])
      else if text = ''a=[1], bM=x, sigma=[10]'' then
        Inr (PDict [(''a'', PList [PNum 1]), (''bM'', PStr ''x''),
                    (''sigma'', PList [PNum 10])])
      else Inl (LibraryError ''JSONDecodeError''))"

definition toy_system :: "(int, toy_trace, toy_predictive) system" where
  "toy_system =
     \<lparr>get_model_uri =
        (\<lambda>ms. case uri ms of
                 None \<Rightarrow> Inl (LibraryError ''no uri'')
               | Some u \<Rightarrow> Inr u),
      read_file = toy_read_file,
      json_load = toy_json_load,
      Predictive = (\<lambda>m posterior. Inr (m, posterior)),
      call_predictive = toy_call_predictive\<rparr>"

text \<open>
  The same library at a later time: it answers as before for the key \<open>PRNGKey 0\<close> and
  otherwise for every other key.
\<close>

definition toy_system_later :: "(int, toy_trace, toy_predictive) system" where
  "toy_system_later =
     toy_system
       \<lparr>call_predictive :=
          (\<lambda>p key kwargs.
             if key = PRNGKey 0 then toy_call_predictive p key kwargs
             else Inl (LibraryError ''another draw''))\<rparr>"

definition toy_settings :: ModelSettings where
  "toy_settings =
     \<lparr>settings_name = ''numpyro-divorce'',
      implementation = ''models.NumpyroModel'',
      uri = Some ''./numpyro-divorce.json'',
      settings_version = None\<rparr>"

text \<open>The instance that \<^verbatim>\<open>load\<close> leaves when run on the new instance of these settings.\<close>

definition toy_loaded :: "(int, toy_predictive) RuntimeInstance" where
  "toy_loaded = fst (load toy_system toy_numerics (new_instance toy_settings))"

text \<open>The request of the notebook (the input \<^verbatim>\<open>marriage\<close> with data \<^verbatim>\<open>[28.0]\<close>), with an id.\<close>

definition toy_request :: "int InferenceRequest" where
  "toy_request =
     \<lparr>request_id = Some ''r1'',
      inputs = [\<lparr>name = ''marriage'', shape = [1], dtype = ''FP32'', parameters = None,
                 data = PList [PNum 280]\<rparr>],
      request_parameters = None\<rparr>"

definition toy_response :: "int InferenceResponse" where
  "toy_response =
     \<lparr>response_id = Some ''r1'', model_name = ''numpyro-divorce'', model_version = None,
      outputs = [\<lparr>name = ''obs_mean'', shape = [], dtype = ''FP32'', parameters = None,
                  data = PNum 85\<rparr>]\<rparr>"

text \<open>A request with an id and no input at all, and the response to it.\<close>

definition toy_request_no_inputs :: "int InferenceRequest" where
  "toy_request_no_inputs =
     \<lparr>request_id = Some ''r2'', inputs = [], request_parameters = None\<rparr>"

definition toy_response_no_inputs :: "int InferenceResponse" where
  "toy_response_no_inputs =
     \<lparr>response_id = Some ''r2'', model_name = ''numpyro-divorce'', model_version = None,
      outputs = [\<lparr>name = ''obs_mean'', shape = [], dtype = ''FP32'', parameters = None,
                  data = PNum 1\<rparr>]\<rparr>"

text \<open>
  The request of the notebook again, with another declared shape, datatype and
  parameters, and other request parameters.
\<close>

definition toy_request_redeclared :: "int InferenceRequest" where
  "toy_request_redeclared =
     \<lparr>request_id = Some ''r1'',
      inputs = [\<lparr>name = ''marriage'', shape = [7, 0], dtype = ''BYTES'',
                 parameters = Some [(''note'', PBool True)],
                 data = PList [PNum 280]\<rparr>],
      request_parameters = Some [(''verbose'', PBool True)]\<rparr>"

subsection \<open>The tensor invariant\<close>

text \<open>
  The length of \<open>data\<close> as a sequence: a list has one, and a value that is no list has
  none (\<^verbatim>\<open>len\<close> of a float is a TypeError).
\<close>

definition data_length :: "'x pyval \<Rightarrow> nat option" where
  "data_length v = (case v of PList vs \<Rightarrow> Some (length vs) | _ \<Rightarrow> None)"

text \<open>
  Modelled from the spec: the invariant of section 3, in its words. \<open>data\<close> is a
  "flattened sequence of scalar values", its length is the product of \<open>shape\<close>, and it
  is empty when \<open>shape\<close> has a zero dimension.
\<close>

definition tensor_invariant :: "'x TensorPayload \<Rightarrow> bool" where
  "tensor_invariant t =
     (data_length (data t) = Some (prod_list (shape t)) \<and>
      (0 \<in> set (shape t) \<longrightarrow> data_length (data t) = Some 0))"

subsection \<open>The request handler\<close>

text \<open>
  Modelled from the spec: the Inference Request Handler (section 4.4), which is part of
  \<^verbatim>\<open>mlserver\<close> and not of the notebook. Of the handler, this is the path from a parsed
  request to the runtime: the request's \<open>id\<close> is "generated if absent" (section 3), only
  a ready instance may serve \<^verbatim>\<open>predict\<close> (sections 3 and 4.3), and the handler
  "otherwise invokes predict" and returns that response. \<open>generated\<close> is the fresh
  correlation string. The validation of the tensors, which comes first and can only
  refuse a request, is left out.
\<close>

definition handle ::
  "('x, 'h, 'p) system \<Rightarrow> 'x numerics \<Rightarrow> string \<Rightarrow> ('x, 'p) RuntimeInstance \<Rightarrow>
   'x InferenceRequest \<Rightarrow> ('x, 'p) RuntimeInstance \<times> (exn + 'x InferenceResponse)" where
  "handle sys nx generated self rawRequest =
     (let request = (case request_id rawRequest of
                       None \<Rightarrow> rawRequest\<lparr>request_id := Some generated\<rparr>
                     | Some _ \<Rightarrow> rawRequest)
      in if ready self then predict sys nx self request
         else (self, Inl (ModelNotReadyError (self_name self))))"

section \<open>Properties\<close>

subsection \<open>What \<^verbatim>\<open>predict\<close> returns\<close>

lemma predict_fst: "fst (predict sys nx self payload) = self"
  by (simp add: predict_def)

lemma predict_response:
  assumes "predict sys nx self payload = (self', Inr r)"
  shows "\<exists>m. r = \<lparr>response_id = request_id payload, model_name = self_name self,
                  model_version = self_version self,
                  outputs = [\<lparr>name = ''obs_mean'', shape = [], dtype = ''FP32'',
                              parameters = None, data = PNum m\<rparr>]\<rparr>"
  using assms
  by (auto simp: predict_def bindE_def mean_def tolist_def np_asarray_def Let_def
      split: sum.splits option.splits)

text \<open>
  A response is built from the observations that the Predictive object returns when
  called with the key \<open>PRNGKey 0\<close> on the extracted inputs.
\<close>

lemma predict_built:
  assumes "predict sys nx self payload = (self', Inr r)"
  shows "\<exists>p kwargs predictions obs.
           predictive self = Some p \<and> extract_inputs nx payload = Inr kwargs \<and>
           call_predictive sys p (PRNGKey 0) kwargs = Inr predictions \<and>
           dict_get predictions ''obs'' = Some obs \<and>
           r = \<lparr>response_id = request_id payload, model_name = self_name self,
                model_version = self_version self,
                outputs = [\<lparr>name = ''obs_mean'', shape = [], dtype = ''FP32'',
                            parameters = None,
                            data = PNum (mean_of nx (nd_elems obs))\<rparr>]\<rparr>"
  using assms
  by (auto simp: predict_def bindE_def mean_def tolist_def np_asarray_def Let_def
      split: sum.splits option.splits)

text \<open>
  Of the library's sampling, \<^verbatim>\<open>predict\<close> reads what it answers for the key \<open>PRNGKey 0\<close>
  and nothing else.
\<close>

lemma predict_reads_key_0:
  assumes "\<forall>p kwargs. call_predictive sys2 p (PRNGKey 0) kwargs =
                      call_predictive sys1 p (PRNGKey 0) kwargs"
  shows "snd (predict sys2 nx self payload) = snd (predict sys1 nx self payload)"
  using assms
  by (auto simp: predict_def bindE_def split: sum.splits option.splits)

lemma predict_many_eq:
  "predict_many sys nx self payloads =
     (self, map (\<lambda>payload. snd (predict sys nx self payload)) payloads)"
proof (induction payloads)
  case Nil
  show ?case by simp
next
  case (Cons payload rest)
  obtain res where "predict sys nx self payload = (self, res)"
    by (simp add: predict_def)
  with Cons show ?case by simp
qed

lemma extract_inputs_loop_cong:
  "map (\<lambda>t. (name t, data t)) xs = map (\<lambda>t. (name t, data t)) ys \<Longrightarrow>
   extract_inputs_loop nx xs acc = extract_inputs_loop nx ys acc"
proof (induction xs arbitrary: ys acc)
  case Nil
  then show ?case by simp
next
  case (Cons x xs)
  then obtain y ys' where ys: "ys = y # ys'" by (cases ys) auto
  with Cons.prems have hd_eq: "name x = name y" "data x = data y"
    and tl_eq: "map (\<lambda>t. (name t, data t)) xs = map (\<lambda>t. (name t, data t)) ys'"
    by simp_all
  show ?case
    using Cons.IH [OF tl_eq] by (simp add: ys hd_eq split: sum.splits)
qed

subsection \<open>The stand-in library, evaluated\<close>

lemma toy_loaded_eq:
  "toy_loaded =
     \<lparr>settings = toy_settings, ready = True,
      samples = Some [(''a'', \<lparr>nd_shape = [1], nd_elems = [1]\<rparr>),
                      (''bM'', \<lparr>nd_shape = [1], nd_elems = [3]\<rparr>),
                      (''sigma'', \<lparr>nd_shape = [1], nd_elems = [10]\<rparr>)],
      predictive = Some (model_kwargs toy_numerics,
                     [(''a'', \<lparr>nd_shape = [1], nd_elems = [1]\<rparr>),
                      (''bM'', \<lparr>nd_shape = [1], nd_elems = [3]\<rparr>),
                      (''sigma'', \<lparr>nd_shape = [1], nd_elems = [10]\<rparr>)])\<rparr>"
  by (simp add: toy_loaded_def load_def toy_system_def new_instance_def toy_settings_def
      toy_numerics_def toy_np_array_def toy_read_file_def toy_json_load_def)

lemma toy_load_eq:
  "load toy_system toy_numerics (new_instance toy_settings) = (toy_loaded, Inr True)"
  by (simp add: toy_loaded_def load_def toy_system_def new_instance_def toy_settings_def
      toy_numerics_def toy_np_array_def toy_read_file_def toy_json_load_def)

lemma toy_load_broken_eq:
  "load toy_system toy_numerics (new_instance (toy_settings\<lparr>uri := Some ''./broken.json''\<rparr>)) =
     (\<lparr>settings = toy_settings\<lparr>uri := Some ''./broken.json''\<rparr>, ready = False,
       samples = Some [(''a'', \<lparr>nd_shape = [1], nd_elems = [1]\<rparr>)],
       predictive = None\<rparr>,
      Inl (LibraryError ''ValueError''))"
  by (simp add: load_def toy_system_def new_instance_def toy_settings_def
      toy_numerics_def toy_np_array_def toy_read_file_def toy_json_load_def)

lemmas toy_run =
  predict_def extract_inputs_def bindE_def toy_system_def toy_numerics_def toy_np_array_def
  toy_call_predictive_def model_kwargs_def dict_keys_def model_def toy_sample_def flt_def
  scalar_def toy_lit_def toy_broadcast_def mean_def toy_mean_of_def tolist_def
  np_asarray_def self_name_def self_version_def toy_settings_def Let_def

lemma toy_predict_eq:
  "predict toy_system toy_numerics toy_loaded toy_request = (toy_loaded, Inr toy_response)"
  by (simp add: toy_loaded_eq toy_request_def toy_response_def toy_run)

lemma toy_predict_no_inputs_eq:
  "predict toy_system toy_numerics toy_loaded toy_request_no_inputs =
     (toy_loaded, Inr toy_response_no_inputs)"
  by (simp add: toy_loaded_eq toy_request_no_inputs_def toy_response_no_inputs_def toy_run)

lemma toy_predict_redeclared_eq:
  "predict toy_system toy_numerics toy_loaded toy_request_redeclared =
     (toy_loaded, Inr toy_response)"
  by (simp add: toy_loaded_eq toy_request_redeclared_def toy_response_def toy_run)

lemma toy_predict_unloaded_eq:
  "predict toy_system toy_numerics (new_instance toy_settings) toy_request =
     (new_instance toy_settings, Inl (AttributeError ''_predictive''))"
  by (simp add: new_instance_def toy_request_def toy_run)

subsection \<open>The claims\<close>

text \<open>
  C1. The response that \<^verbatim>\<open>predict\<close> returns carries the \<open>id\<close> of its request, and as
  \<open>model_name\<close> and \<open>model_version\<close> the name and version of the instance that served it.
  When one instance serves a list of requests, the response in each position carries
  the id of the request in that position; if the ids of the requests are distinct, it
  carries the id of no other request.
\<close>

theorem predict_echoes_id_and_identity:
  "(predict sys nx self payload = (self', Inr r) \<longrightarrow>
      response_id r = request_id payload \<and>
      model_name r = self_name self \<and> model_version r = self_version self) \<and>
   (predict_many sys nx self payloads = (self'', ress) \<and> i < length payloads \<and>
    ress ! i = Inr r' \<longrightarrow>
      response_id r' = request_id (payloads ! i) \<and>
      model_name r' = self_name self \<and> model_version r' = self_version self \<and>
      (distinct (map request_id payloads) \<longrightarrow>
         (\<forall>j < length payloads. j \<noteq> i \<longrightarrow> response_id r' \<noteq> request_id (payloads ! j))))"
proof (intro conjI impI)
  assume "predict sys nx self payload = (self', Inr r)"
  from predict_response [OF this]
  show "response_id r = request_id payload" "model_name r = self_name self"
    "model_version r = self_version self" by auto
next
  assume "predict_many sys nx self payloads = (self'', ress) \<and> i < length payloads \<and>
    ress ! i = Inr r'"
  then have run: "predict_many sys nx self payloads = (self'', ress)"
    and i: "i < length payloads" and at_i: "ress ! i = Inr r'" by simp_all
  from run have "ress = map (\<lambda>payload. snd (predict sys nx self payload)) payloads"
    by (auto simp: predict_many_eq)
  with i at_i have "snd (predict sys nx self (payloads ! i)) = Inr r'" by simp
  then have "predict sys nx self (payloads ! i) = (self, Inr r')"
    by (metis predict_fst prod.collapse)
  from predict_response [OF this]
  show own: "response_id r' = request_id (payloads ! i)"
    and "model_name r' = self_name self" "model_version r' = self_version self" by auto
  assume dist: "distinct (map request_id payloads)"
  show "\<forall>j < length payloads. j \<noteq> i \<longrightarrow> response_id r' \<noteq> request_id (payloads ! j)"
  proof (intro allI impI)
    fix j
    assume j: "j < length payloads" "j \<noteq> i"
    with i dist have "map request_id payloads ! j \<noteq> map request_id payloads ! i"
      using nth_eq_iff_index_eq [of "map request_id payloads" j i] by simp
    with j i own show "response_id r' \<noteq> request_id (payloads ! j)" by simp
  qed
qed

theorem predict_echoes_id_and_identity_witness:
  "predict toy_system toy_numerics toy_loaded toy_request = (toy_loaded, Inr toy_response) \<and>
   response_id toy_response = request_id toy_request \<and>
   request_id toy_request = Some ''r1'' \<and>
   model_name toy_response = self_name toy_loaded \<and>
   model_version toy_response = self_version toy_loaded \<and>
   predict_many toy_system toy_numerics toy_loaded [toy_request, toy_request_no_inputs] =
     (toy_loaded, [Inr toy_response, Inr toy_response_no_inputs]) \<and>
   distinct (map request_id [toy_request, toy_request_no_inputs]) \<and>
   response_id toy_response_no_inputs = request_id ([toy_request, toy_request_no_inputs] ! 1) \<and>
   response_id toy_response_no_inputs \<noteq> request_id ([toy_request, toy_request_no_inputs] ! 0)"
proof -
  have many: "predict_many toy_system toy_numerics toy_loaded [toy_request, toy_request_no_inputs] =
      (toy_loaded, [Inr toy_response, Inr toy_response_no_inputs])"
    by (simp add: toy_predict_eq toy_predict_no_inputs_eq)
  have dist: "distinct (map request_id [toy_request, toy_request_no_inputs])"
    by (simp add: toy_request_def toy_request_no_inputs_def)
  have rid: "request_id toy_request = Some ''r1''"
    by (simp add: toy_request_def)
  from predict_echoes_id_and_identity
    [where sys = toy_system and nx = toy_numerics and self = toy_loaded
       and payload = toy_request and self' = toy_loaded and r = toy_response
       and payloads = "[toy_request, toy_request_no_inputs]" and self'' = toy_loaded
       and ress = "[Inr toy_response, Inr toy_response_no_inputs]" and i = 1
       and r' = toy_response_no_inputs]
    toy_predict_eq many dist rid
  show ?thesis by simp
qed

text \<open>
  C2. The code does not keep the invariant that the claim states, for any request that
  \<^verbatim>\<open>predict\<close> answers. The shape of the output is that of an array with no axis, whose
  product is 1, and its \<open>data\<close> is the mean of the observations drawn for the request, as
  a bare number: \<^verbatim>\<open>tolist()\<close> of such an array is the scalar and not a list of one
  element. A bare number is no sequence and has no length, so the output does not
  satisfy the tensor invariant, which asks for a sequence of length 1.
\<close>

theorem predict_output_is_bare_mean:
  assumes "predict sys nx self payload = (self', Inr r)" and "out \<in> set (outputs r)"
  shows "\<exists>p kwargs predictions obs.
           predictive self = Some p \<and> extract_inputs nx payload = Inr kwargs \<and>
           call_predictive sys p (PRNGKey 0) kwargs = Inr predictions \<and>
           dict_get predictions ''obs'' = Some obs \<and>
           shape out = [] \<and> prod_list (shape out) = 1 \<and>
           data out = PNum (mean_of nx (nd_elems obs)) \<and>
           data_length (data out) = None \<and> \<not> tensor_invariant out"
proof -
  from predict_built [OF assms(1)] obtain p kwargs predictions obs where
    built: "predictive self = Some p" "extract_inputs nx payload = Inr kwargs"
      "call_predictive sys p (PRNGKey 0) kwargs = Inr predictions"
      "dict_get predictions ''obs'' = Some obs"
    and r: "outputs r =
      [\<lparr>name = ''obs_mean'', shape = [], dtype = ''FP32'', parameters = None,
        data = PNum (mean_of nx (nd_elems obs))\<rparr>]"
    by auto
  from r assms(2) have "shape out = []" "data out = PNum (mean_of nx (nd_elems obs))"
    by simp_all
  then have "prod_list (shape out) = 1" "data_length (data out) = None"
    "\<not> tensor_invariant out"
    by (simp_all add: data_length_def tensor_invariant_def)
  with built \<open>shape out = []\<close> \<open>data out = PNum (mean_of nx (nd_elems obs))\<close>
  show ?thesis by blast
qed

text \<open>
  The notebook's request on a loaded instance: the one output of \<^verbatim>\<open>predict\<close> has the
  shape \<open>[]\<close>, whose product is 1, and as \<open>data\<close> the bare number that is the mean of the
  observations (here the one observation 85). \<open>data\<close> has no length, and the invariant
  is false of the output; it is true of the request's own input, whose data is a list.
\<close>

theorem predict_output_breaks_tensor_invariant:
  "snd (predict toy_system toy_numerics toy_loaded toy_request) = Inr toy_response \<and>
   outputs toy_response =
     [\<lparr>name = ''obs_mean'', shape = [], dtype = ''FP32'', parameters = None,
       data = PNum (mean_of toy_numerics [85])\<rparr>] \<and>
   prod_list (shape (hd (outputs toy_response))) = 1 \<and>
   data_length (data (hd (outputs toy_response))) = None \<and>
   \<not> tensor_invariant (hd (outputs toy_response)) \<and>
   tensor_invariant (hd (inputs toy_request))"
proof -
  have mem: "hd (outputs toy_response) \<in> set (outputs toy_response)"
    by (simp add: toy_response_def)
  from predict_output_is_bare_mean [OF toy_predict_eq mem]
  have "prod_list (shape (hd (outputs toy_response))) = 1"
    and "data_length (data (hd (outputs toy_response))) = None"
    and "\<not> tensor_invariant (hd (outputs toy_response))"
    by blast+
  moreover have "outputs toy_response =
     [\<lparr>name = ''obs_mean'', shape = [], dtype = ''FP32'', parameters = None,
       data = PNum (mean_of toy_numerics [85])\<rparr>]"
    by (simp add: toy_response_def toy_numerics_def toy_mean_of_def)
  moreover have "tensor_invariant (hd (inputs toy_request))"
    by (simp add: toy_request_def tensor_invariant_def data_length_def)
  ultimately show ?thesis using toy_predict_eq by simp
qed

text \<open>
  C3, as amended. The runtime requires no input tensor and has no check for one. For a
  request with an empty list of inputs, \<^verbatim>\<open>_extract_inputs\<close> returns the empty dictionary;
  called with no keyword, \<^verbatim>\<open>_model\<close> runs with \<open>marriage\<close>, \<open>age\<close> and \<open>divorce\<close> at their
  default \<open>None\<close>, so that it samples \<open>a\<close>, \<open>sigma\<close> and \<open>obs\<close> only and adds \<open>M = 0.0\<close> and
  \<open>A = 0.0\<close>; and \<^verbatim>\<open>predict\<close> returns a response whenever the call of the Predictive object
  succeeds and yields \<open>obs\<close>. When \<^verbatim>\<open>predict\<close> fails, the exception is one that
  \<^verbatim>\<open>np.array\<close> or the Predictive call raised, or the missing attribute \<open>_predictive\<close>, or
  the missing key \<open>obs\<close>.
\<close>

theorem predict_missing_inputs_use_defaults:
  "(inputs payload = [] \<longrightarrow> extract_inputs nx payload = Inr []) \<and>
   model_kwargs nx smp [] h = model nx smp None None None h \<and>
   model nx smp None None divorce h =
     bindE (smp ''a'' (Normal (flt nx ''0.0'') (flt nx ''0.2'')) None h) (\<lambda>(a, h1).
     bindE (smp ''sigma'' (Exponential (flt nx ''1.0'')) None h1) (\<lambda>(sigma, h2).
     bindE (add nx a (flt nx ''0.0'')) (\<lambda>aM.
     bindE (add nx aM (flt nx ''0.0'')) (\<lambda>mu.
     bindE (smp ''obs'' (Normal mu sigma) divorce h2) (\<lambda>(obs, h3). Inr h3))))) \<and>
   (inputs payload = [] \<and> predictive self = Some p \<and>
    call_predictive sys p (PRNGKey 0) [] = Inr predictions \<and>
    dict_get predictions ''obs'' = Some obs \<longrightarrow>
      (\<exists>r. predict sys nx self payload = (self, Inr r))) \<and>
   (predict sys nx self payload = (self', Inl e) \<longrightarrow>
      e = AttributeError ''_predictive'' \<or> e = KeyError ''obs'' \<or>
      (\<exists>v. np_array nx v = Inl e) \<or> (\<exists>q k kw. call_predictive sys q k kw = Inl e))"
proof (intro conjI impI)
  assume "inputs payload = []"
  then show "extract_inputs nx payload = Inr []" by (simp add: extract_inputs_def)
next
  show "model_kwargs nx smp [] h = model nx smp None None None h"
    by (simp add: model_kwargs_def dict_keys_def)
next
  show "model nx smp None None divorce h =
     bindE (smp ''a'' (Normal (flt nx ''0.0'') (flt nx ''0.2'')) None h) (\<lambda>(a, h1).
     bindE (smp ''sigma'' (Exponential (flt nx ''1.0'')) None h1) (\<lambda>(sigma, h2).
     bindE (add nx a (flt nx ''0.0'')) (\<lambda>aM.
     bindE (add nx aM (flt nx ''0.0'')) (\<lambda>mu.
     bindE (smp ''obs'' (Normal mu sigma) divorce h2) (\<lambda>(obs, h3). Inr h3)))))"
    by (simp add: model_def bindE_def split: sum.splits prod.splits)
next
  assume "inputs payload = [] \<and> predictive self = Some p \<and>
    call_predictive sys p (PRNGKey 0) [] = Inr predictions \<and>
    dict_get predictions ''obs'' = Some obs"
  then show "\<exists>r. predict sys nx self payload = (self, Inr r)"
    by (simp add: predict_def extract_inputs_def bindE_def Let_def)
next
  assume "predict sys nx self payload = (self', Inl e)"
  then have fails: "snd (predict sys nx self payload) = Inl e" by simp
  have "extract_inputs_loop nx ts acc = Inl e \<Longrightarrow> \<exists>v. np_array nx v = Inl e" for ts acc
    by (induction ts arbitrary: acc) (auto split: sum.splits)
  then have "extract_inputs nx payload = Inl e \<Longrightarrow> \<exists>v. np_array nx v = Inl e"
    by (simp add: extract_inputs_def)
  with fails show "e = AttributeError ''_predictive'' \<or> e = KeyError ''obs'' \<or>
      (\<exists>v. np_array nx v = Inl e) \<or> (\<exists>q k kw. call_predictive sys q k kw = Inl e)"
    by (auto simp: predict_def bindE_def Let_def split: sum.splits option.splits)
qed

theorem predict_missing_inputs_use_defaults_witness:
  "inputs toy_request_no_inputs = [] \<and>
   extract_inputs toy_numerics toy_request_no_inputs = Inr [] \<and>
   predictive toy_loaded = Some (the (predictive toy_loaded)) \<and>
   call_predictive toy_system (the (predictive toy_loaded)) (PRNGKey 0) [] =
     Inr [(''obs'', \<lparr>nd_shape = [1], nd_elems = [1]\<rparr>)] \<and>
   (\<exists>r. predict toy_system toy_numerics toy_loaded toy_request_no_inputs = (toy_loaded, Inr r)) \<and>
   predict toy_system toy_numerics (new_instance toy_settings) toy_request =
     (new_instance toy_settings, Inl (AttributeError ''_predictive''))"
proof -
  have empty: "inputs toy_request_no_inputs = []"
    by (simp add: toy_request_no_inputs_def)
  have p: "predictive toy_loaded = Some (the (predictive toy_loaded))"
    by (simp add: toy_loaded_eq)
  have call: "call_predictive toy_system (the (predictive toy_loaded)) (PRNGKey 0) [] =
      Inr [(''obs'', \<lparr>nd_shape = [1], nd_elems = [1]\<rparr>)]"
    by (simp add: toy_loaded_eq toy_run)
  have obs: "dict_get [(''obs'', \<lparr>nd_shape = [1::nat], nd_elems = [1::int]\<rparr>)] ''obs'' =
      Some \<lparr>nd_shape = [1], nd_elems = [1]\<rparr>"
    by simp
  from predict_missing_inputs_use_defaults
    [where payload = toy_request_no_inputs and nx = toy_numerics and sys = toy_system
       and self = toy_loaded and p = "the (predictive toy_loaded)"
       and predictions = "[(''obs'', \<lparr>nd_shape = [1], nd_elems = [1]\<rparr>)]"
       and obs = "\<lparr>nd_shape = [1], nd_elems = [1]\<rparr>"
       and smp = "toy_sample []" and h = "[]" and divorce = None
       and self' = toy_loaded and e = "KeyError ''obs''"]
    empty p call obs
  have "extract_inputs toy_numerics toy_request_no_inputs = Inr []"
    and "\<exists>r. predict toy_system toy_numerics toy_loaded toy_request_no_inputs =
           (toy_loaded, Inr r)"
    by blast+
  with empty p call toy_predict_unloaded_eq show ?thesis by simp
qed

text \<open>
  C3, as the claim states it, fails: on a loaded instance, the request with no input at
  all is answered with a response, computed from the defaults of \<^verbatim>\<open>_model\<close>.
\<close>

theorem predict_without_inputs_responds:
  "snd (predict toy_system toy_numerics toy_loaded
          \<lparr>request_id = Some ''r2'', inputs = [], request_parameters = None\<rparr>) =
     Inr \<lparr>response_id = Some ''r2'', model_name = ''numpyro-divorce'', model_version = None,
          outputs = [\<lparr>name = ''obs_mean'', shape = [], dtype = ''FP32'', parameters = None,
                      data = PNum 1\<rparr>]\<rparr>"
  using toy_predict_no_inputs_eq
  by (simp add: toy_request_no_inputs_def toy_response_no_inputs_def)

text \<open>
  C4. \<^verbatim>\<open>load\<close> changes the \<open>ready\<close> flag only in its last assignment: when it ends with
  an exception the flag is what it was, and when it returns it returns \<open>True\<close> and the
  flag is \<open>True\<close>. On an instance whose flag is false, as that of a new instance is, the
  flag is true afterwards exactly when \<^verbatim>\<open>load\<close> returned \<open>True\<close>; \<^verbatim>\<open>load\<close> never returns
  \<open>False\<close>.
\<close>

theorem load_sets_ready_only_on_success:
  assumes "load sys nx self = (self', res)"
  shows "(\<forall>e. res = Inl e \<longrightarrow> ready self' = ready self) \<and>
         (\<forall>b. res = Inr b \<longrightarrow> b \<and> ready self') \<and>
         (\<not> ready self \<longrightarrow> (ready self' \<longleftrightarrow> res = Inr True)) \<and>
         res \<noteq> Inr False"
  using assms
  by (auto simp: load_def Let_def split: sum.splits pyval.splits prod.splits option.splits)

theorem load_sets_ready_only_on_success_witness:
  "\<not> ready (new_instance toy_settings :: (int, toy_predictive) RuntimeInstance) \<and>
   load toy_system toy_numerics (new_instance toy_settings) = (toy_loaded, Inr True) \<and>
   ready toy_loaded \<and>
   snd (load toy_system toy_numerics
          (new_instance (toy_settings\<lparr>uri := Some ''./broken.json''\<rparr>))) =
     Inl (LibraryError ''ValueError'') \<and>
   \<not> ready (fst (load toy_system toy_numerics
                  (new_instance (toy_settings\<lparr>uri := Some ''./broken.json''\<rparr>))))"
proof -
  have fresh: "\<not> ready (new_instance ms :: (int, toy_predictive) RuntimeInstance)" for ms
    by (simp add: new_instance_def)
  from load_sets_ready_only_on_success [OF toy_load_eq]
    load_sets_ready_only_on_success [OF toy_load_broken_eq]
    fresh toy_load_eq toy_load_broken_eq
  show ?thesis by simp
qed

text \<open>
  C5. The only randomness that \<^verbatim>\<open>predict\<close> uses is what the Predictive object draws for
  the fixed key \<open>PRNGKey 0\<close>. The library is \<open>sys1\<close> at the first call, \<open>sys2\<close> at the
  second and \<open>sys\<close> in between: its sampling may answer differently from one time to
  the next for every key but \<open>PRNGKey 0\<close>, for which a seeded generator repeats itself.
  Then two calls of \<^verbatim>\<open>predict\<close> on one instance with equal requests return equal
  results, whatever calls the instance served in between; and a response is the one
  built from the observations drawn with the key \<open>PRNGKey 0\<close> for the inputs of the
  request.
\<close>

theorem predict_deterministic:
  assumes "\<forall>p kwargs. call_predictive sys2 p (PRNGKey 0) kwargs =
                      call_predictive sys1 p (PRNGKey 0) kwargs"
    and "predict sys1 nx self payload = (self1, res1)"
    and "predict_many sys nx self1 between = (self2, ress)"
    and "predict sys2 nx self2 payload' = (self3, res2)"
    and "payload' = payload"
  shows "res2 = res1 \<and>
         (\<forall>r. res1 = Inr r \<longrightarrow>
            (\<exists>p kwargs predictions obs.
               predictive self = Some p \<and> extract_inputs nx payload = Inr kwargs \<and>
               call_predictive sys1 p (PRNGKey 0) kwargs = Inr predictions \<and>
               dict_get predictions ''obs'' = Some obs \<and>
               r = \<lparr>response_id = request_id payload, model_name = self_name self,
                    model_version = self_version self,
                    outputs = [\<lparr>name = ''obs_mean'', shape = [], dtype = ''FP32'',
                                parameters = None,
                                data = PNum (mean_of nx (nd_elems obs))\<rparr>]\<rparr>))"
proof -
  from assms(2) have "self1 = self" by (auto simp: predict_def)
  moreover from assms(3) have "self2 = self1" by (auto simp: predict_many_eq)
  ultimately have "res2 = snd (predict sys2 nx self payload)"
    using assms(4,5) by simp
  also have "\<dots> = snd (predict sys1 nx self payload)"
    by (rule predict_reads_key_0 [OF assms(1)])
  also have "\<dots> = res1" using assms(2) by simp
  finally have same: "res2 = res1" .
  have "\<exists>p kwargs predictions obs.
               predictive self = Some p \<and> extract_inputs nx payload = Inr kwargs \<and>
               call_predictive sys1 p (PRNGKey 0) kwargs = Inr predictions \<and>
               dict_get predictions ''obs'' = Some obs \<and>
               r = \<lparr>response_id = request_id payload, model_name = self_name self,
                    model_version = self_version self,
                    outputs = [\<lparr>name = ''obs_mean'', shape = [], dtype = ''FP32'',
                                parameters = None,
                                data = PNum (mean_of nx (nd_elems obs))\<rparr>]\<rparr>"
    if "res1 = Inr r" for r
    using assms(2) that by (intro predict_built [of sys1 nx self payload self1 r]) simp
  with same show ?thesis by blast
qed

theorem predict_deterministic_witness:
  "(\<forall>p kwargs. call_predictive toy_system_later p (PRNGKey 0) kwargs =
                call_predictive toy_system p (PRNGKey 0) kwargs) \<and>
   call_predictive toy_system_later (the (predictive toy_loaded)) (PRNGKey 1) [] \<noteq>
     call_predictive toy_system (the (predictive toy_loaded)) (PRNGKey 1) [] \<and>
   predict toy_system toy_numerics toy_loaded toy_request = (toy_loaded, Inr toy_response) \<and>
   predict_many toy_system toy_numerics toy_loaded [toy_request_no_inputs] =
     (toy_loaded, [Inr toy_response_no_inputs]) \<and>
   snd (predict toy_system_later toy_numerics toy_loaded toy_request) =
     snd (predict toy_system toy_numerics toy_loaded toy_request) \<and>
   snd (predict toy_system_later toy_numerics toy_loaded toy_request) = Inr toy_response"
proof -
  have keyed: "\<forall>p kwargs. call_predictive toy_system_later p (PRNGKey 0) kwargs =
      call_predictive toy_system p (PRNGKey 0) kwargs"
    by (simp add: toy_system_later_def toy_system_def)
  have differ: "call_predictive toy_system_later (the (predictive toy_loaded)) (PRNGKey 1) [] \<noteq>
      call_predictive toy_system (the (predictive toy_loaded)) (PRNGKey 1) []"
    by (simp add: toy_system_later_def toy_loaded_eq toy_run)
  have first: "predict toy_system toy_numerics toy_loaded toy_request =
      (toy_loaded, snd (predict toy_system toy_numerics toy_loaded toy_request))"
    by (simp add: toy_predict_eq)
  have between: "predict_many toy_system toy_numerics toy_loaded [toy_request_no_inputs] =
      (toy_loaded, [Inr toy_response_no_inputs])"
    by (simp add: toy_predict_no_inputs_eq)
  have again: "predict toy_system_later toy_numerics toy_loaded toy_request =
      (toy_loaded, snd (predict toy_system_later toy_numerics toy_loaded toy_request))"
    using predict_fst [of toy_system_later toy_numerics toy_loaded toy_request]
    by (simp add: prod_eq_iff)
  from predict_deterministic [OF keyed first between again refl]
  have same: "snd (predict toy_system_later toy_numerics toy_loaded toy_request) =
      snd (predict toy_system toy_numerics toy_loaded toy_request)"
    by blast
  have "snd (predict toy_system_later toy_numerics toy_loaded toy_request) = Inr toy_response"
    by (simp add: same toy_predict_eq)
  with keyed differ toy_predict_eq between same show ?thesis by blast
qed

text \<open>
  C6. A request that arrives without an \<open>id\<close> is given the generated one by the handler
  before the runtime is called, and \<^verbatim>\<open>predict\<close> copies the \<open>id\<close> of the request it is
  given: the response that the handler returns carries the generated id.
\<close>

theorem handle_generates_absent_id:
  assumes "request_id payload = None"
    and "handle sys nx generated self payload = (self', Inr r)"
  shows "response_id r = Some generated \<and> response_id r \<noteq> None"
proof -
  from assms
  have "predict sys nx self (payload\<lparr>request_id := Some generated\<rparr>) = (self', Inr r)"
    by (simp add: handle_def Let_def split: if_splits)
  from predict_response [OF this] show ?thesis by auto
qed

theorem handle_generates_absent_id_witness:
  "request_id (toy_request\<lparr>request_id := None\<rparr>) = None \<and>
   handle toy_system toy_numerics ''generated-1'' toy_loaded (toy_request\<lparr>request_id := None\<rparr>) =
     (toy_loaded, Inr (toy_response\<lparr>response_id := Some ''generated-1''\<rparr>)) \<and>
   response_id (toy_response\<lparr>response_id := Some ''generated-1''\<rparr>) = Some ''generated-1''"
proof -
  have absent: "request_id (toy_request\<lparr>request_id := None\<rparr>) = None" by simp
  have run: "handle toy_system toy_numerics ''generated-1'' toy_loaded
      (toy_request\<lparr>request_id := None\<rparr>) =
      (toy_loaded, Inr (toy_response\<lparr>response_id := Some ''generated-1''\<rparr>))"
    by (simp add: handle_def toy_loaded_eq toy_request_def toy_response_def toy_run)
  from handle_generates_absent_id [OF absent run] absent run
  show ?thesis by simp
qed

text \<open>
  Without the handler, the runtime generates nothing: the response of \<^verbatim>\<open>predict\<close> to a
  request without an \<open>id\<close> has none.
\<close>

lemma predict_absent_id:
  assumes "request_id payload = None" and "predict sys nx self payload = (self', Inr r)"
  shows "response_id r = None"
  using predict_response [OF assms(2)] assms(1) by auto

text \<open>
  C7. \<^verbatim>\<open>predict\<close> leaves the instance as it was, whether it returns a response or ends
  with an exception: \<open>_samples\<close>, \<open>_predictive\<close>, \<open>ready\<close>, \<open>name\<close> and \<open>version\<close> are
  unchanged, and so is everything else of the instance.
\<close>

theorem predict_preserves_instance:
  assumes "predict sys nx self payload = (self', res)"
  shows "samples self' = samples self \<and> predictive self' = predictive self \<and>
         ready self' = ready self \<and> self_name self' = self_name self \<and>
         self_version self' = self_version self \<and> self' = self"
  using assms by (auto simp: predict_def)

theorem predict_preserves_instance_witness:
  "predict toy_system toy_numerics toy_loaded toy_request = (toy_loaded, Inr toy_response) \<and>
   ready toy_loaded \<and> self_name toy_loaded = ''numpyro-divorce'' \<and>
   self_version toy_loaded = None \<and>
   predict toy_system toy_numerics (new_instance toy_settings) toy_request =
     (new_instance toy_settings, Inl (AttributeError ''_predictive''))"
proof -
  from predict_preserves_instance [OF toy_predict_eq]
    predict_preserves_instance [OF toy_predict_unloaded_eq]
    toy_predict_eq toy_predict_unloaded_eq
  show ?thesis by (simp add: toy_loaded_eq self_name_def self_version_def toy_settings_def)
qed

text \<open>
  C9. \<^verbatim>\<open>predict\<close> reads of the inputs their names and their data only: two requests
  whose inputs agree, in order, on name and data get the same outputs, or the same
  exception, whatever their declared shapes, datatypes and parameters are, and the
  same response if their ids agree too.
\<close>

theorem predict_reads_names_and_data_only:
  assumes "map (\<lambda>t. (name t, data t)) (inputs p1) = map (\<lambda>t. (name t, data t)) (inputs p2)"
    and "predict sys nx self p1 = (s1, res1)"
    and "predict sys nx self p2 = (s2, res2)"
  shows "map_sum (\<lambda>e. e) outputs res1 = map_sum (\<lambda>e. e) outputs res2 \<and>
         (request_id p1 = request_id p2 \<longrightarrow> res1 = res2) \<and> s1 = s2"
proof -
  have "extract_inputs nx p1 = extract_inputs nx p2"
    unfolding extract_inputs_def by (rule extract_inputs_loop_cong [OF assms(1)])
  with assms(2,3) show ?thesis
    by (auto simp: predict_def bindE_def Let_def split: sum.splits option.splits)
qed

theorem predict_reads_names_and_data_only_witness:
  "map (\<lambda>t. (name t, data t)) (inputs toy_request) =
     map (\<lambda>t. (name t, data t)) (inputs toy_request_redeclared) \<and>
   map shape (inputs toy_request) \<noteq> map shape (inputs toy_request_redeclared) \<and>
   map dtype (inputs toy_request) \<noteq> map dtype (inputs toy_request_redeclared) \<and>
   map parameters (inputs toy_request) \<noteq> map parameters (inputs toy_request_redeclared) \<and>
   predict toy_system toy_numerics toy_loaded toy_request = (toy_loaded, Inr toy_response) \<and>
   predict toy_system toy_numerics toy_loaded toy_request_redeclared =
     (toy_loaded, Inr toy_response)"
proof -
  have same: "map (\<lambda>t. (name t, data t)) (inputs toy_request) =
      map (\<lambda>t. (name t, data t)) (inputs toy_request_redeclared)"
    by (simp add: toy_request_def toy_request_redeclared_def)
  have differ: "map shape (inputs toy_request) \<noteq> map shape (inputs toy_request_redeclared)"
    "map dtype (inputs toy_request) \<noteq> map dtype (inputs toy_request_redeclared)"
    "map parameters (inputs toy_request) \<noteq> map parameters (inputs toy_request_redeclared)"
    by (simp_all add: toy_request_def toy_request_redeclared_def)
  from predict_reads_names_and_data_only [OF same toy_predict_eq toy_predict_redeclared_eq]
    same differ toy_predict_eq toy_predict_redeclared_eq
  show ?thesis by simp
qed

text \<open>
  C10. A response of \<^verbatim>\<open>predict\<close> has exactly one output; its name is \<open>obs_mean\<close> and its
  datatype \<open>FP32\<close>, whatever the request's inputs are.
\<close>

theorem predict_single_obs_mean_output:
  assumes "predict sys nx self payload = (self', Inr r)"
  shows "\<exists>out. outputs r = [out] \<and> name out = ''obs_mean'' \<and> dtype out = ''FP32''"
  using predict_response [OF assms] by auto

theorem predict_single_obs_mean_output_witness:
  "predict toy_system toy_numerics toy_loaded toy_request = (toy_loaded, Inr toy_response) \<and>
   (\<exists>out. outputs toy_response = [out] \<and> name out = ''obs_mean'' \<and> dtype out = ''FP32'')"
proof -
  from predict_single_obs_mean_output [OF toy_predict_eq] toy_predict_eq
  show ?thesis by simp
qed

end
